theory Spec2Isabelle
  imports Main "HOL-Library.AList" "HOL-Library.Sublist"
begin

section \<open>Python values\<close>

text \<open>
  The values that \<^verbatim>\<open>json.loads\<close> returns and that the mapper builds: \<^verbatim>\<open>None\<close>,
  booleans, integers, strings, lists and dictionaries. A dictionary keeps the order in
  which its keys were inserted, so it is an association list with one entry per key.
  JSON numbers with a fraction or an exponent (Python floats) are left out of the model.
  A string is a list of characters with code points below 256.
\<close>

datatype json =
    JNull
  | JBool bool
  | JInt int
  | JStr string
  | JList "json list"
  | JObj "(string \<times> json) list"

text \<open>Python's truth value of an object, as tested by \<^verbatim>\<open>if x:\<close> and \<^verbatim>\<open>x or y\<close>.\<close>

fun truthy :: "json \<Rightarrow> bool" where
  "truthy JNull = False"
| "truthy (JBool b) = b"
| "truthy (JInt i) = (i \<noteq> 0)"
| "truthy (JStr s) = (s \<noteq> [])"
| "truthy (JList xs) = (xs \<noteq> [])"
| "truthy (JObj kvs) = (kvs \<noteq> [])"

text \<open>Reading a key of a dictionary value; \<open>None\<close> when the value is no dictionary or
  has no such key.\<close>

definition jget :: "string \<Rightarrow> json \<Rightarrow> json option" where
  "jget k j = (case j of JObj kvs \<Rightarrow> map_of kvs k | _ \<Rightarrow> None)"

text \<open>\<^verbatim>\<open>d[k] = v\<close>: an existing key keeps its place, a new key goes to the end.\<close>

definition dict_set :: "string \<Rightarrow> json \<Rightarrow> (string \<times> json) list \<Rightarrow> (string \<times> json) list" where
  "dict_set k v d = AList.update k v d"

text \<open>\<^verbatim>\<open>str(n)\<close> of a non-negative integer: its decimal digits.\<close>

definition digit_char :: "nat \<Rightarrow> char" where
  "digit_char d = ''0123456789'' ! d"

fun str_nat :: "nat \<Rightarrow> string" where
  "str_nat n = (if n < 10 then [digit_char n] else str_nat (n div 10) @ [digit_char (n mod 10)])"

declare str_nat.simps [simp del]

text \<open>\<^verbatim>\<open>sep.join(parts)\<close>.\<close>

fun join :: "string \<Rightarrow> string list \<Rightarrow> string" where
  "join sep [] = []"
| "join sep [p] = p"
| "join sep (p # q # ps) = p @ sep @ join sep (q # ps)"

text \<open>\<^verbatim>\<open>str.lower()\<close> on code points below 256: the ASCII capitals and the Latin-1
  capitals (all of 192 to 222 but the multiplication sign 215) move up by 32.\<close>

definition lower_char :: "char \<Rightarrow> char" where
  "lower_char c =
     (let n = (of_char c :: nat)
      in if (65 \<le> n \<and> n \<le> 90) \<or> (192 \<le> n \<and> n \<le> 222 \<and> n \<noteq> 215)
         then char_of (n + 32) else c)"

definition lower :: "string \<Rightarrow> string" where
  "lower s = map lower_char s"


section \<open>The entity graph (schemas.py)\<close>

text \<open>
  The classes of \<^verbatim>\<open>schemas.py\<close> as records. A field \<^verbatim>\<open>f\<close> of a class is named with
  the initial of its class (\<^verbatim>\<open>name\<close> occurs in four classes, and \<^verbatim>\<open>value\<close> and
  \<^verbatim>\<open>type\<close> are not available as field names); \<^verbatim>\<open>Optional[T]\<close> is \<open>T option\<close>.
\<close>

record PatientInfo =
  p_name :: "string option"
  p_age :: "int option"
  p_sex :: "string option"

record Condition =
  c_name :: string
  c_icd10_code :: "string option"

record Medication =
  m_name :: string
  m_dose :: "string option"
  m_route :: "string option"
  m_frequency :: "string option"
  m_rxnorm_code :: "string option"

record VitalSign =
  v_type :: string
  v_value :: string
  v_unit :: "string option"

record LabResult =
  l_name :: string
  l_value :: "string option"
  l_unit :: "string option"

record PlanItem =
  description :: string

record StructuredNote =
  patient :: "PatientInfo option"
  conditions :: "Condition list"
  medications :: "Medication list"
  vitals :: "VitalSign list"
  labs :: "LabResult list"
  plan :: "PlanItem list"

text \<open>The truth value of an \<^verbatim>\<open>Optional[str]\<close> and of an \<^verbatim>\<open>Optional[int]\<close> field.\<close>

definition truthy_str :: "string option \<Rightarrow> bool" where
  "truthy_str x = (case x of None \<Rightarrow> False | Some s \<Rightarrow> s \<noteq> [])"

definition truthy_int :: "int option \<Rightarrow> bool" where
  "truthy_int x = (case x of None \<Rightarrow> False | Some i \<Rightarrow> i \<noteq> 0)"

text \<open>An \<^verbatim>\<open>Optional[str]\<close> as a value of the output, and as \<^verbatim>\<open>f"{x}"\<close> formats it.\<close>

definition json_of_opt :: "string option \<Rightarrow> json" where
  "json_of_opt x = (case x of None \<Rightarrow> JNull | Some s \<Rightarrow> JStr s)"

definition format_opt :: "string option \<Rightarrow> string" where
  "format_opt x = (case x of None \<Rightarrow> ''None'' | Some s \<Rightarrow> s)"


section \<open>The mapper (fhir\_mapper.py)\<close>

definition patient_id :: string where
  "patient_id = ''patient-1''"

definition subject :: json where
  "subject = JObj [(''reference'', JStr (''Patient/'' @ patient_id))]"

text \<open>Lines 25 to 50: the Patient dictionary and the three guarded assignments.\<close>

definition patient_name_part :: "PatientInfo \<Rightarrow> (string \<times> json) list \<Rightarrow> (string \<times> json) list" where
  "patient_name_part p d =
     (if truthy_str (p_name p)
      then dict_set ''name'' (JList [JObj [(''text'', json_of_opt (p_name p))]]) d
      else d)"

definition patient_gender_part :: "PatientInfo \<Rightarrow> (string \<times> json) list \<Rightarrow> (string \<times> json) list" where
  "patient_gender_part p d =
     (if truthy_str (p_sex p)
      then (let sex_lower = lower (the (p_sex p))
            in if sex_lower \<in> {''male'', ''female'', ''other'', ''unknown''}
               then dict_set ''gender'' (JStr sex_lower) d
               else dict_set ''gender'' (JStr ''unknown'') d)
      else d)"

definition patient_age_part :: "PatientInfo \<Rightarrow> (string \<times> json) list \<Rightarrow> (string \<times> json) list" where
  "patient_age_part p d =
     (if truthy_int (p_age p)
      then dict_set ''extension''
             (JList [JObj [(''url'', JStr ''http://hl7.org/fhir/StructureDefinition/patient-age''),
                           (''valueInteger'', JInt (the (p_age p)))]]) d
      else d)"

definition patient_resource :: "PatientInfo option \<Rightarrow> json" where
  "patient_resource po =
     (let d = [(''resourceType'', JStr ''Patient''), (''id'', JStr patient_id)]
      in case po of
           None \<Rightarrow> JObj d
         | Some p \<Rightarrow> JObj (patient_age_part p (patient_gender_part p (patient_name_part p d))))"

text \<open>Lines 57 to 78: one Condition resource, for the pair that \<^verbatim>\<open>enumerate\<close> yields.\<close>

definition condition_resource :: "nat \<times> Condition \<Rightarrow> json" where
  "condition_resource ic =
     (case ic of (idx, cond) \<Rightarrow>
        JObj [(''resourceType'', JStr ''Condition''),
              (''id'', JStr (''condition-'' @ str_nat idx)),
              (''subject'', subject),
              (''clinicalStatus'', JObj [(''text'', JStr ''active'')]),
              (''verificationStatus'', JObj [(''text'', JStr ''confirmed'')]),
              (''code'',
                 JObj (if truthy_str (c_icd10_code cond)
                       then dict_set ''coding''
                              (JList [JObj [(''system'', JStr ''http://hl7.org/fhir/sid/icd-10-cm''),
                                            (''code'', json_of_opt (c_icd10_code cond))]])
                              [(''text'', JStr (c_name cond))]
                       else [(''text'', JStr (c_name cond))]))])"

text \<open>Lines 83 to 119: one MedicationRequest resource.\<close>

definition med_text_parts :: "Medication \<Rightarrow> string list" where
  "med_text_parts med =
     (if truthy_str (m_dose med) then [the (m_dose med)] else [])
     @ (if truthy_str (m_frequency med) then [the (m_frequency med)] else [])"

definition dosage_text :: "Medication \<Rightarrow> string option" where
  "dosage_text med =
     (if med_text_parts med \<noteq> [] then Some (join '' '' (med_text_parts med)) else None)"

definition med_resource :: "nat \<times> Medication \<Rightarrow> json" where
  "med_resource im =
     (case im of (idx, med) \<Rightarrow>
        (let d = [(''resourceType'', JStr ''MedicationRequest''),
                  (''id'', JStr (''medreq-'' @ str_nat idx)),
                  (''subject'', subject),
                  (''status'', JStr ''active''),
                  (''intent'', JStr ''order''),
                  (''medicationCodeableConcept'',
                     JObj (if truthy_str (m_rxnorm_code med)
                           then dict_set ''coding''
                                  (JList [JObj [(''system'', JStr ''http://www.nlm.nih.gov/research/umls/rxnorm''),
                                                (''code'', json_of_opt (m_rxnorm_code med))]])
                                  [(''text'', JStr (m_name med))]
                           else [(''text'', JStr (m_name med))]))]
         in JObj (if truthy_str (dosage_text med)
                  then dict_set ''dosageInstruction''
                         (JList [JObj [(''text'', json_of_opt (dosage_text med))]]) d
                  else d)))"

text \<open>Lines 124 to 171: the two Observation loops. \<^verbatim>\<open>obs_counter\<close> is the state both
  loops share: each loop takes it and returns it with the resources it appended.\<close>

definition vital_resource :: "nat \<Rightarrow> VitalSign \<Rightarrow> json" where
  "vital_resource obs_counter vital =
     JObj [(''resourceType'', JStr ''Observation''),
           (''id'', JStr (''observation-vital-'' @ str_nat obs_counter)),
           (''status'', JStr ''final''),
           (''subject'', subject),
           (''code'', JObj [(''text'', JStr (v_type vital))]),
           (''valueString'',
              (if truthy_str (v_unit vital)
               then JStr (v_value vital @ '' '' @ the (v_unit vital))
               else JStr (v_value vital)))]"

fun vital_loop :: "nat \<Rightarrow> VitalSign list \<Rightarrow> json list \<times> nat" where
  "vital_loop obs_counter [] = ([], obs_counter)"
| "vital_loop obs_counter (vital # rest) =
     (case vital_loop (obs_counter + 1) rest of
        (rs, c) \<Rightarrow> (vital_resource obs_counter vital # rs, c))"

definition lab_resource :: "nat \<Rightarrow> LabResult \<Rightarrow> json" where
  "lab_resource obs_counter lab =
     JObj [(''resourceType'', JStr ''Observation''),
           (''id'', JStr (''observation-lab-'' @ str_nat obs_counter)),
           (''status'', JStr ''final''),
           (''subject'', subject),
           (''code'', JObj [(''text'', JStr (l_name lab))]),
           (''valueString'',
              (if truthy_str (l_unit lab)
               then JStr (format_opt (l_value lab) @ '' '' @ the (l_unit lab))
               else json_of_opt (l_value lab)))]"

fun lab_loop :: "nat \<Rightarrow> LabResult list \<Rightarrow> json list \<times> nat" where
  "lab_loop obs_counter [] = ([], obs_counter)"
| "lab_loop obs_counter (lab # rest) =
     (case lab_loop (obs_counter + 1) rest of
        (rs, c) \<Rightarrow> (lab_resource obs_counter lab # rs, c))"

definition observation_resources :: "VitalSign list \<Rightarrow> LabResult list \<Rightarrow> json list" where
  "observation_resources vs ls =
     (case vital_loop 1 vs of
        (rv, obs_counter) \<Rightarrow> (case lab_loop obs_counter ls of (rl, _) \<Rightarrow> rv @ rl))"

text \<open>Lines 176 to 193: the CarePlan, appended only for a non-empty plan.\<close>

definition plan_descriptions :: "PlanItem list \<Rightarrow> string list" where
  "plan_descriptions items = filter (\<lambda>d. d \<noteq> []) (map description items)"

definition narrative_text :: "PlanItem list \<Rightarrow> string option" where
  "narrative_text items =
     (if plan_descriptions items \<noteq> [] then Some (join '' | '' (plan_descriptions items)) else None)"

definition careplan_resources :: "PlanItem list \<Rightarrow> json list" where
  "careplan_resources items =
     (if items \<noteq> []
      then (let d = [(''resourceType'', JStr ''CarePlan''),
                     (''id'', JStr ''careplan-1''),
                     (''subject'', subject),
                     (''status'', JStr ''active''),
                     (''intent'', JStr ''plan'')]
            in [JObj (if truthy_str (narrative_text items)
                      then dict_set ''description'' (json_of_opt (narrative_text items)) d
                      else d)])
      else [])"

text \<open>The list \<^verbatim>\<open>resources\<close> at line 198, and the bundle returned.\<close>

definition resources :: "StructuredNote \<Rightarrow> json list" where
  "resources structured =
     [patient_resource (patient structured)]
     @ map condition_resource (enumerate 1 (conditions structured))
     @ map med_resource (enumerate 1 (medications structured))
     @ observation_resources (vitals structured) (labs structured)
     @ careplan_resources (plan structured)"

definition structured_to_fhir :: "StructuredNote \<Rightarrow> json" where
  "structured_to_fhir structured =
     JObj [(''resourceType'', JStr ''Bundle''),
           (''type'', JStr ''collection''),
           (''entry'', JList (map (\<lambda>r. JObj [(''resource'', r)]) (resources structured)))]"

text \<open>Reading a bundle back: the resources under its \<^verbatim>\<open>entry\<close> key, in order.\<close>

definition bundle_resources :: "json \<Rightarrow> json list" where
  "bundle_resources b =
     (case jget ''entry'' b of
        Some (JList es) \<Rightarrow> map (\<lambda>e. case jget ''resource'' e of Some r \<Rightarrow> r | None \<Rightarrow> JNull) es
      | _ \<Rightarrow> [])"

definition resource_type :: "json \<Rightarrow> json option" where
  "resource_type r = jget ''resourceType'' r"


section \<open>The normalizer and the enrichment (agent.py)\<close>

text \<open>
  What lies outside the repository is a parameter of the model:
  \<^item> \<open>loads\<close> is \<^verbatim>\<open>json.loads\<close>: the parsed value, or the text of the
    \<^verbatim>\<open>JSONDecodeError\<close> it raises;
  \<^item> \<open>get\<close> is \<^verbatim>\<open>requests.get\<close> against one terminology service: the outcome of
    the request with a given number in the run, for the name searched for;
  \<^item> a \<open>pydantic\<close> record holds the library's conversions of a value to the
    annotated type of a field.
  The language model's reply is the input \<open>content\<close>; the token usage returned beside
  the data is left out.
\<close>

datatype py_error =
    RuntimeError string
  | AttributeError
  | TypeError
  | ValidationError

text \<open>The outcome of \<^verbatim>\<open>requests.get\<close>: it raises (no connection, timeout), or there is a
  response with a status code and a body, where \<open>None\<close> is a body that
  \<^verbatim>\<open>resp.json()\<close> cannot decode.\<close>

datatype response =
    RequestException
  | Response nat "json option"

definition raise_for_status :: "nat \<Rightarrow> bool" where
  "raise_for_status status_code \<longleftrightarrow> 400 \<le> status_code \<and> status_code < 600"

text \<open>\<^verbatim>\<open>x[i]\<close> for an index \<open>i \<ge> 0\<close> and \<^verbatim>\<open>len(x)\<close>; \<open>None\<close> where Python raises
  (IndexError, KeyError on a dictionary whose keys are strings, TypeError).\<close>

definition py_index :: "json \<Rightarrow> nat \<Rightarrow> json option" where
  "py_index x i =
     (case x of
        JList xs \<Rightarrow> if i < length xs then Some (xs ! i) else None
      | JStr s \<Rightarrow> if i < length s then Some (JStr [s ! i]) else None
      | _ \<Rightarrow> None)"

definition py_len :: "json \<Rightarrow> nat option" where
  "py_len x =
     (case x of
        JList xs \<Rightarrow> Some (length xs)
      | JStr s \<Rightarrow> Some (length s)
      | JObj kvs \<Rightarrow> Some (length kvs)
      | _ \<Rightarrow> None)"

text \<open>\<^verbatim>\<open>d.get(k)\<close> and \<^verbatim>\<open>d.get(k, default)\<close> on a dictionary.\<close>

definition dict_get_default :: "string \<Rightarrow> json \<Rightarrow> (string \<times> json) list \<Rightarrow> json" where
  "dict_get_default k dflt d = (case map_of d k of None \<Rightarrow> dflt | Some v \<Rightarrow> v)"

definition dict_get :: "string \<Rightarrow> (string \<times> json) list \<Rightarrow> json" where
  "dict_get k d = dict_get_default k JNull d"

text \<open>Lines 32 to 60. Every exception inside \<^verbatim>\<open>try\<close> ends in \<^verbatim>\<open>return None\<close>.\<close>

definition lookup_icd10 :: "(json \<Rightarrow> response) \<Rightarrow> json \<Rightarrow> json" where
  "lookup_icd10 get condition_name =
     (case get condition_name of
        RequestException \<Rightarrow> JNull
      | Response status_code body \<Rightarrow>
          if raise_for_status status_code then JNull
          else (case body of
                  None \<Rightarrow> JNull
                | Some data \<Rightarrow>
                    (case py_index data 3 of
                       None \<Rightarrow> JNull
                     | Some results \<Rightarrow>
                         if truthy results
                         then (case Option.bind (py_index results 0) (\<lambda>r. py_index r 0) of
                                 None \<Rightarrow> JNull
                               | Some code \<Rightarrow> code)
                         else JNull)))"

text \<open>Lines 63 to 85.\<close>

definition lookup_rxnorm :: "(json \<Rightarrow> response) \<Rightarrow> json \<Rightarrow> json" where
  "lookup_rxnorm get med_name =
     (case get med_name of
        RequestException \<Rightarrow> JNull
      | Response status_code body \<Rightarrow>
          if raise_for_status status_code then JNull
          else (case body of
                  Some (JObj data) \<Rightarrow>
                    (case dict_get_default ''idGroup'' (JObj []) data of
                       JObj id_group \<Rightarrow>
                         (let rxcui = dict_get ''rxnormId'' id_group
                          in if truthy rxcui
                             then (case py_len rxcui of
                                     None \<Rightarrow> JNull
                                   | Some n \<Rightarrow>
                                       if n > 0
                                       then (case py_index rxcui 0 of None \<Rightarrow> JNull | Some c \<Rightarrow> c)
                                       else JNull)
                             else JNull)
                     | _ \<Rightarrow> JNull)
                | _ \<Rightarrow> JNull))"

text \<open>Python's \<^verbatim>\<open>str.strip()\<close>, \<^verbatim>\<open>str.lstrip()\<close>, \<^verbatim>\<open>str.strip(chars)\<close> and
  \<^verbatim>\<open>str.startswith\<close>. The white space below code point 256 is 9 to 13, 28 to 32, 133
  and 160.\<close>

definition is_space :: "char \<Rightarrow> bool" where
  "is_space c \<longleftrightarrow> (of_char c :: nat) \<in> {9, 10, 11, 12, 13, 28, 29, 30, 31, 32, 133, 160}"

definition lstrip :: "string \<Rightarrow> string" where
  "lstrip s = dropWhile is_space s"

definition strip :: "string \<Rightarrow> string" where
  "strip s = rev (dropWhile is_space (rev (dropWhile is_space s)))"

definition strip_chars :: "string \<Rightarrow> string \<Rightarrow> string" where
  "strip_chars chars s =
     rev (dropWhile (\<lambda>c. c \<in> set chars) (rev (dropWhile (\<lambda>c. c \<in> set chars) s)))"

definition startswith :: "string \<Rightarrow> string \<Rightarrow> bool" where
  "startswith s p \<longleftrightarrow> prefix p s"

text \<open>Lines 126 to 133: the text handed to the parser, which the code keeps in the
  variable \<^verbatim>\<open>raw\<close>.\<close>

definition fence_strip :: "string \<Rightarrow> string" where
  "fence_strip content =
     (let raw = strip content
      in if startswith raw ''```''
         then (let raw = strip_chars ''`'' raw
               in if startswith (lower raw) ''json'' then lstrip (drop 4 raw) else raw)
         else raw)"

text \<open>Lines 135 to 142 of \<^verbatim>\<open>_call_llm_for_structure\<close>.\<close>

definition call_llm_for_structure :: "(string \<Rightarrow> string + json) \<Rightarrow> string \<Rightarrow> py_error + json" where
  "call_llm_for_structure loads content =
     (let raw = fence_strip content
      in case loads raw of
           Inl e \<Rightarrow>
             Inl (RuntimeError (''Failed to parse LLM JSON: '' @ e @ [CHR 0x0A]
                                @ ''Raw content:'' @ [CHR 0x0A] @ raw))
         | Inr data \<Rightarrow> Inr data)"

text \<open>A \<^verbatim>\<open>for\<close> loop whose body may raise: the first exception ends it.\<close>

fun for_each :: "('a \<Rightarrow> py_error + 'b) \<Rightarrow> 'a list \<Rightarrow> py_error + 'b list" where
  "for_each f [] = Inr []"
| "for_each f (x # xs) =
     (case f x of
        Inl e \<Rightarrow> Inl e
      | Inr y \<Rightarrow> (case for_each f xs of Inl e \<Rightarrow> Inl e | Inr ys \<Rightarrow> Inr (y # ys)))"

text \<open>What \<^verbatim>\<open>for x in v\<close> iterates over: the elements of a list, the characters of a
  string, the keys of a dictionary; anything else is not iterable.\<close>

definition py_iter :: "json \<Rightarrow> py_error + json list" where
  "py_iter v =
     (case v of
        JList xs \<Rightarrow> Inr xs
      | JStr s \<Rightarrow> Inr (map (\<lambda>c. JStr [c]) s)
      | JObj kvs \<Rightarrow> Inr (map (\<lambda>kv. JStr (fst kv)) kvs)
      | _ \<Rightarrow> Inl TypeError)"

text \<open>Lines 152 to 156 and 160 to 164: the loop bodies of \<^verbatim>\<open>_enrich_with_codes\<close>.
  \<^verbatim>\<open>cond.get\<close> exists on a dictionary only. The entity is mutated in place; the model
  returns it updated. The body sends one request for an entity with a name: \<open>k\<close> counts
  the requests that the run has sent to the service before, and is returned with the
  entity.\<close>

definition enrich_condition ::
  "(nat \<Rightarrow> json \<Rightarrow> response) \<Rightarrow> nat \<Rightarrow> json \<Rightarrow> py_error + json \<times> nat" where
  "enrich_condition get k cond =
     (case cond of
        JObj d \<Rightarrow>
          (let name = dict_get ''name'' d
           in if truthy name
              then Inr (JObj (dict_set ''icd10_code'' (lookup_icd10 (get k) name) d), k + 1)
              else Inr (JObj d, k))
      | _ \<Rightarrow> Inl AttributeError)"

definition enrich_medication ::
  "(nat \<Rightarrow> json \<Rightarrow> response) \<Rightarrow> nat \<Rightarrow> json \<Rightarrow> py_error + json \<times> nat" where
  "enrich_medication get k med =
     (case med of
        JObj d \<Rightarrow>
          (let name = dict_get ''name'' d
           in if truthy name
              then Inr (JObj (dict_set ''rxnorm_code'' (lookup_rxnorm (get k) name) d), k + 1)
              else Inr (JObj d, k))
      | _ \<Rightarrow> Inl AttributeError)"

text \<open>A \<^verbatim>\<open>for\<close> loop that threads the count of requests through its bodies.\<close>

fun for_each_counting ::
  "(nat \<Rightarrow> 'a \<Rightarrow> py_error + 'b \<times> nat) \<Rightarrow> nat \<Rightarrow> 'a list \<Rightarrow> py_error + 'b list" where
  "for_each_counting f k [] = Inr []"
| "for_each_counting f k (x # xs) =
     (case f k x of
        Inl e \<Rightarrow> Inl e
      | Inr (y, k') \<Rightarrow>
          (case for_each_counting f k' xs of Inl e \<Rightarrow> Inl e | Inr ys \<Rightarrow> Inr (y # ys)))"

text \<open>\<^verbatim>\<open>x or []\<close>.\<close>

definition or_empty_list :: "json \<Rightarrow> json" where
  "or_empty_list v = (if truthy v then v else JList [])"

text \<open>Lines 145 to 168. \<^verbatim>\<open>struct_dict.get\<close> exists on a dictionary only. Each of the
  two services counts its requests from 0.\<close>

definition enrich_with_codes ::
  "(nat \<Rightarrow> json \<Rightarrow> response) \<Rightarrow> (nat \<Rightarrow> json \<Rightarrow> response) \<Rightarrow> json \<Rightarrow> py_error + json" where
  "enrich_with_codes icd rx struct_dict =
     (case struct_dict of
        JObj d \<Rightarrow>
          (case py_iter (or_empty_list (dict_get ''conditions'' d)) of
             Inl e \<Rightarrow> Inl e
           | Inr cs \<Rightarrow>
               (case for_each_counting (enrich_condition icd) 0 cs of
                  Inl e \<Rightarrow> Inl e
                | Inr conds \<Rightarrow>
                    (case py_iter (or_empty_list (dict_get ''medications'' d)) of
                       Inl e \<Rightarrow> Inl e
                     | Inr ms \<Rightarrow>
                         (case for_each_counting (enrich_medication rx) 0 ms of
                            Inl e \<Rightarrow> Inl e
                          | Inr meds \<Rightarrow>
                              Inr (JObj (dict_set ''medications'' (JList meds)
                                           (dict_set ''conditions'' (JList conds) d)))))))
      | _ \<Rightarrow> Inl AttributeError)"

text \<open>
  \<^verbatim>\<open>StructuredNote(**struct_dict)\<close> at line 179 validates the dictionary against the
  classes of \<^verbatim>\<open>schemas.py\<close>. The field names, their optionality and their defaults are
  the declarations there. What is not in the repository is a parameter: how the library
  converts a value that is not \<^verbatim>\<open>None\<close> to \<^verbatim>\<open>str\<close> or to \<^verbatim>\<open>int\<close>, how it reads a
  value that is no dictionary as the dictionary of a nested class (\<open>None\<close> is a value the
  library rejects), and the keyword names that the constructor of a class keeps for
  itself, which a dictionary passed with \<^verbatim>\<open>**\<close> must not hold.
\<close>

record pydantic =
  str_validator :: "json \<Rightarrow> string option"
  int_validator :: "json \<Rightarrow> int option"
  dict_validator :: "json \<Rightarrow> (string \<times> json) list option"
  reserved_keys :: "string list"

definition and_then :: "py_error + 'a \<Rightarrow> ('a \<Rightarrow> py_error + 'b) \<Rightarrow> py_error + 'b" where
  "and_then r f = (case r of Inl e \<Rightarrow> Inl e | Inr x \<Rightarrow> f x)"

definition scalar :: "(json \<Rightarrow> 'a option) \<Rightarrow> json \<Rightarrow> py_error + 'a" where
  "scalar conv v = (case conv v of None \<Rightarrow> Inl ValidationError | Some x \<Rightarrow> Inr x)"

text \<open>A field \<^verbatim>\<open>f: T\<close>, a field \<^verbatim>\<open>f: Optional[T] = None\<close> and a field
  \<^verbatim>\<open>f: List[T] = []\<close>.\<close>

definition required_field ::
  "(json \<Rightarrow> py_error + 'a) \<Rightarrow> string \<Rightarrow> (string \<times> json) list \<Rightarrow> py_error + 'a" where
  "required_field conv k d =
     (case map_of d k of None \<Rightarrow> Inl ValidationError | Some v \<Rightarrow> conv v)"

definition optional_field ::
  "(json \<Rightarrow> py_error + 'a) \<Rightarrow> string \<Rightarrow> (string \<times> json) list \<Rightarrow> py_error + 'a option" where
  "optional_field conv k d =
     (case map_of d k of
        None \<Rightarrow> Inr None
      | Some JNull \<Rightarrow> Inr None
      | Some v \<Rightarrow> and_then (conv v) (\<lambda>x. Inr (Some x)))"

definition list_field ::
  "(json \<Rightarrow> py_error + 'a) \<Rightarrow> string \<Rightarrow> (string \<times> json) list \<Rightarrow> py_error + 'a list" where
  "list_field conv k d =
     (case map_of d k of
        None \<Rightarrow> Inr []
      | Some (JList xs) \<Rightarrow> for_each conv xs
      | Some _ \<Rightarrow> Inl ValidationError)"

text \<open>A nested class: a dictionary is taken as it is, any other value goes through the
  library's conversion; the constructor is then called with the dictionary, and an
  exception of the call is a validation error of the field.\<close>

definition as_dict :: "pydantic \<Rightarrow> json \<Rightarrow> (string \<times> json) list option" where
  "as_dict L v = (case v of JObj d \<Rightarrow> Some d | _ \<Rightarrow> dict_validator L v)"

definition holds_reserved_key :: "pydantic \<Rightarrow> (string \<times> json) list \<Rightarrow> bool" where
  "holds_reserved_key L d = list_ex (\<lambda>k. map_of d k \<noteq> None) (reserved_keys L)"

definition model :: "pydantic \<Rightarrow> ((string \<times> json) list \<Rightarrow> py_error + 'a) \<Rightarrow> json \<Rightarrow> py_error + 'a" where
  "model L validate_fields v =
     (case as_dict L v of
        None \<Rightarrow> Inl ValidationError
      | Some d \<Rightarrow> if holds_reserved_key L d then Inl ValidationError else validate_fields d)"

definition validate_PatientInfo :: "pydantic \<Rightarrow> (string \<times> json) list \<Rightarrow> py_error + PatientInfo" where
  "validate_PatientInfo L d =
     and_then (optional_field (scalar (str_validator L)) ''name'' d) (\<lambda>x1.
     and_then (optional_field (scalar (int_validator L)) ''age'' d) (\<lambda>x2.
     and_then (optional_field (scalar (str_validator L)) ''sex'' d) (\<lambda>x3.
     Inr \<lparr>p_name = x1, p_age = x2, p_sex = x3\<rparr>)))"

definition validate_Condition :: "pydantic \<Rightarrow> (string \<times> json) list \<Rightarrow> py_error + Condition" where
  "validate_Condition L d =
     and_then (required_field (scalar (str_validator L)) ''name'' d) (\<lambda>x1.
     and_then (optional_field (scalar (str_validator L)) ''icd10_code'' d) (\<lambda>x2.
     Inr \<lparr>c_name = x1, c_icd10_code = x2\<rparr>))"

definition validate_Medication :: "pydantic \<Rightarrow> (string \<times> json) list \<Rightarrow> py_error + Medication" where
  "validate_Medication L d =
     and_then (required_field (scalar (str_validator L)) ''name'' d) (\<lambda>x1.
     and_then (optional_field (scalar (str_validator L)) ''dose'' d) (\<lambda>x2.
     and_then (optional_field (scalar (str_validator L)) ''route'' d) (\<lambda>x3.
     and_then (optional_field (scalar (str_validator L)) ''frequency'' d) (\<lambda>x4.
     and_then (optional_field (scalar (str_validator L)) ''rxnorm_code'' d) (\<lambda>x5.
     Inr \<lparr>m_name = x1, m_dose = x2, m_route = x3, m_frequency = x4, m_rxnorm_code = x5\<rparr>)))))"

definition validate_VitalSign :: "pydantic \<Rightarrow> (string \<times> json) list \<Rightarrow> py_error + VitalSign" where
  "validate_VitalSign L d =
     and_then (required_field (scalar (str_validator L)) ''type'' d) (\<lambda>x1.
     and_then (required_field (scalar (str_validator L)) ''value'' d) (\<lambda>x2.
     and_then (optional_field (scalar (str_validator L)) ''unit'' d) (\<lambda>x3.
     Inr \<lparr>v_type = x1, v_value = x2, v_unit = x3\<rparr>)))"

definition validate_LabResult :: "pydantic \<Rightarrow> (string \<times> json) list \<Rightarrow> py_error + LabResult" where
  "validate_LabResult L d =
     and_then (required_field (scalar (str_validator L)) ''name'' d) (\<lambda>x1.
     and_then (optional_field (scalar (str_validator L)) ''value'' d) (\<lambda>x2.
     and_then (optional_field (scalar (str_validator L)) ''unit'' d) (\<lambda>x3.
     Inr \<lparr>l_name = x1, l_value = x2, l_unit = x3\<rparr>)))"

definition validate_PlanItem :: "pydantic \<Rightarrow> (string \<times> json) list \<Rightarrow> py_error + PlanItem" where
  "validate_PlanItem L d =
     and_then (required_field (scalar (str_validator L)) ''description'' d) (\<lambda>x1.
     Inr \<lparr>description = x1\<rparr>)"

definition validate_StructuredNote :: "pydantic \<Rightarrow> (string \<times> json) list \<Rightarrow> py_error + StructuredNote" where
  "validate_StructuredNote L d =
     and_then (optional_field (model L (validate_PatientInfo L)) ''patient'' d) (\<lambda>x1.
     and_then (list_field (model L (validate_Condition L)) ''conditions'' d) (\<lambda>x2.
     and_then (list_field (model L (validate_Medication L)) ''medications'' d) (\<lambda>x3.
     and_then (list_field (model L (validate_VitalSign L)) ''vitals'' d) (\<lambda>x4.
     and_then (list_field (model L (validate_LabResult L)) ''labs'' d) (\<lambda>x5.
     and_then (list_field (model L (validate_PlanItem L)) ''plan'' d) (\<lambda>x6.
     Inr \<lparr>patient = x1, conditions = x2, medications = x3, vitals = x4, labs = x5, plan = x6\<rparr>))))))"

text \<open>Lines 175 to 180 of \<^verbatim>\<open>extract_structured_note\<close>, from the parsed dictionary on, and
  the whole function. \<^verbatim>\<open>**\<close> takes a dictionary only, and raises a TypeError for a key
  that the constructor keeps for itself.\<close>

definition structured_of_dict ::
  "pydantic \<Rightarrow> (nat \<Rightarrow> json \<Rightarrow> response) \<Rightarrow> (nat \<Rightarrow> json \<Rightarrow> response) \<Rightarrow> json
     \<Rightarrow> py_error + StructuredNote" where
  "structured_of_dict L icd rx struct_dict =
     and_then (enrich_with_codes icd rx struct_dict) (\<lambda>enriched.
       case enriched of
         JObj d \<Rightarrow> if holds_reserved_key L d then Inl TypeError else validate_StructuredNote L d
       | _ \<Rightarrow> Inl TypeError)"

definition extract_structured_note ::
  "pydantic \<Rightarrow> (string \<Rightarrow> string + json) \<Rightarrow> (nat \<Rightarrow> json \<Rightarrow> response)
     \<Rightarrow> (nat \<Rightarrow> json \<Rightarrow> response) \<Rightarrow> string \<Rightarrow> py_error + StructuredNote" where
  "extract_structured_note L loads icd rx content =
     and_then (call_llm_for_structure loads content) (structured_of_dict L icd rx)"

text \<open>The strictest library: a string for \<^verbatim>\<open>str\<close>, an integer for \<^verbatim>\<open>int\<close>, a
  dictionary for a class, and nothing else; its constructors keep one keyword name.\<close>

definition strict :: pydantic where
  "strict =
     \<lparr>str_validator = (\<lambda>v. case v of JStr s \<Rightarrow> Some s | _ \<Rightarrow> None),
      int_validator = (\<lambda>v. case v of JInt i \<Rightarrow> Some i | _ \<Rightarrow> None),
      dict_validator = (\<lambda>v. None),
      reserved_keys = [''__pydantic_self__'']\<rparr>"


section \<open>Vocabulary of the properties\<close>

text \<open>
  The words in which the properties below are stated: what it is for a resource to refer
  to the patient, the resources of one type, the closed gender vocabulary, the parts of a
  text that are not empty, a message carrying a text, the name of an entity, the ways in
  which a lookup fails, and the fields of the classes. A parser that rejects every text
  stands in for the parser at concrete inputs.
\<close>

definition references_patient :: "json \<Rightarrow> bool" where
  "references_patient r \<longleftrightarrow>
     resource_type r \<in> {Some (JStr ''Condition''), Some (JStr ''MedicationRequest''),
                          Some (JStr ''Observation''), Some (JStr ''CarePlan'')}
     \<and> jget ''subject'' r = Some (JObj [(''reference'', JStr ''Patient/patient-1'')])"

definition gender_vocabulary :: "string set" where
  "gender_vocabulary = {''male'', ''female'', ''other'', ''unknown''}"

definition non_empty_parts :: "string option list \<Rightarrow> string list" where
  "non_empty_parts xs = filter (\<lambda>x. x \<noteq> []) (map (\<lambda>x. case x of None \<Rightarrow> [] | Some y \<Rightarrow> y) xs)"

definition of_type :: "string \<Rightarrow> json list \<Rightarrow> json list" where
  "of_type t rs = filter (\<lambda>r. resource_type r = Some (JStr t)) rs"

definition carries :: "string \<Rightarrow> string \<Rightarrow> bool" where
  "carries part message \<longleftrightarrow> sublist part message"

definition rejecting_parser :: "string \<Rightarrow> string \<Rightarrow> string + json" where
  "rejecting_parser diagnostic raw = Inl diagnostic"

definition is_dict :: "json \<Rightarrow> bool" where
  "is_dict v = (case v of JObj _ \<Rightarrow> True | _ \<Rightarrow> False)"


definition name_of :: "json \<Rightarrow> json" where
  "name_of entity = (case entity of JObj d \<Rightarrow> dict_get ''name'' d | _ \<Rightarrow> JNull)"

definition with_code :: "string \<Rightarrow> (json \<Rightarrow> json) \<Rightarrow> json \<Rightarrow> json" where
  "with_code key lookup entity =
     (case entity of
        JObj d \<Rightarrow> if truthy (name_of entity) then JObj (dict_set key (lookup (name_of entity)) d) else entity
      | _ \<Rightarrow> entity)"

text \<open>Reading an item of a list or of a string by its position, as the lookups do.\<close>

definition has_item :: "json \<Rightarrow> nat \<Rightarrow> bool" where
  "has_item x i = (case x of JList xs \<Rightarrow> i < length xs | JStr s \<Rightarrow> i < length s | _ \<Rightarrow> False)"

definition item :: "json \<Rightarrow> nat \<Rightarrow> json" where
  "item x i = (case x of JList xs \<Rightarrow> xs ! i | JStr s \<Rightarrow> JStr [s ! i] | _ \<Rightarrow> JNull)"

text \<open>
  The failures of a lookup: the request raises (no connection, timeout); the status is
  one of 400 to 599; the body does not decode as JSON; the decoded body has not the shape
  that the lookup reads, so that reading it raises; the result set is empty. The ICD-10
  lookup reads the first item of the first item of the fourth item of the body. The RxNorm
  lookup reads the first item of the \<^verbatim>\<open>rxnormId\<close> of the \<^verbatim>\<open>idGroup\<close> of the body.
\<close>

definition icd10_lookup_failed :: "response \<Rightarrow> bool" where
  "icd10_lookup_failed r =
     (case r of
        RequestException \<Rightarrow> True
      | Response status_code body \<Rightarrow>
          (400 \<le> status_code \<and> status_code < 600)
          \<or> (case body of
                None \<Rightarrow> True
              | Some data \<Rightarrow>
                  \<not> has_item data 3
                  \<or> \<not> truthy (item data 3)
                  \<or> \<not> has_item (item data 3) 0
                  \<or> \<not> has_item (item (item data 3) 0) 0))"

definition rxnorm_lookup_failed :: "response \<Rightarrow> bool" where
  "rxnorm_lookup_failed r =
     (case r of
        RequestException \<Rightarrow> True
      | Response status_code body \<Rightarrow>
          (400 \<le> status_code \<and> status_code < 600)
          \<or> (case body of
                Some (JObj data) \<Rightarrow>
                  (case map_of data ''idGroup'' of
                     None \<Rightarrow> True
                   | Some (JObj id_group) \<Rightarrow>
                       (case map_of id_group ''rxnormId'' of
                          None \<Rightarrow> True
                        | Some ids \<Rightarrow> \<not> truthy ids \<or> \<not> has_item ids 0)
                   | Some _ \<Rightarrow> True)
              | _ \<Rightarrow> True))"

text \<open>The number of requests sent before the loop reaches the entity at position \<open>i\<close>:
  one for every earlier entity with a name.\<close>

definition requests_before :: "json list \<Rightarrow> nat \<Rightarrow> nat" where
  "requests_before entities i = length (filter (\<lambda>e. truthy (name_of e)) (take i entities))"

text \<open>Services for concrete inputs: one that times out, one that finds no match, one that
  times out on its first request and answers every later one, one whose body is a JSON
  string, and one that answers with the status 300.\<close>

definition timed_out :: "nat \<Rightarrow> json \<Rightarrow> response" where
  "timed_out k name = RequestException"

definition no_match :: "nat \<Rightarrow> json \<Rightarrow> response" where
  "no_match k name = Response 200 (Some (JObj [(''idGroup'', JObj [])]))"

definition first_request_fails :: "nat \<Rightarrow> json \<Rightarrow> response" where
  "first_request_fails k name =
     (if k = 0 then RequestException
      else Response 200 (Some (JList [JInt 1, JList [JStr ''I10''], JNull,
                                      JList [JList [JStr ''I10'', JStr ''Essential hypertension'']]])))"

definition string_body :: "nat \<Rightarrow> json \<Rightarrow> response" where
  "string_body k name = Response 200 (Some (JStr ''abcdef''))"

definition multiple_choices :: "nat \<Rightarrow> json \<Rightarrow> response" where
  "multiple_choices k name =
     Response 300 (Some (JObj [(''idGroup'', JObj [(''rxnormId'', JList [JStr ''29046''])])]))"














section \<open>Proofs\<close>

subsection \<open>Reading dictionaries\<close>

lemma jget_dict_set:
  "jget k (JObj (dict_set k' v d)) = (if k = k' then Some v else jget k (JObj d))"
  by (simp add: jget_def dict_set_def update_conv')

lemma jget_Cons:
  "jget k (JObj ((k', v) # d)) = (if k = k' then Some v else jget k (JObj d))"
  by (simp add: jget_def)

lemma jget_Nil: "jget k (JObj []) = None"
  by (simp add: jget_def)

lemmas jget_simps = jget_dict_set jget_Cons jget_Nil

lemma bundle_resources_structured_to_fhir:
  "bundle_resources (structured_to_fhir s) = resources s"
  by (simp add: bundle_resources_def structured_to_fhir_def jget_def comp_def)

subsection \<open>The loops\<close>

lemma vital_loop_eq:
  "vital_loop k vs = (map (\<lambda>(i, v). vital_resource i v) (enumerate k vs), k + length vs)"
  by (induction vs arbitrary: k) simp_all

lemma lab_loop_eq:
  "lab_loop k ls = (map (\<lambda>(i, l). lab_resource i l) (enumerate k ls), k + length ls)"
  by (induction ls arbitrary: k) simp_all

lemma observation_resources_eq:
  "observation_resources vs ls =
     map (\<lambda>(i, v). vital_resource i v) (enumerate 1 vs)
     @ map (\<lambda>(i, l). lab_resource i l) (enumerate (1 + length vs) ls)"
  by (simp add: observation_resources_def vital_loop_eq lab_loop_eq)

lemma map_enumerate_fst:
  "map (\<lambda>(i, x). f i) (enumerate k xs) = map f [k..<k + length xs]"
  by (induction xs arbitrary: k) (simp_all add: upt_rec)

lemma map_enumerate_snd:
  "map (\<lambda>(i, x). g x) (enumerate k xs) = map g xs"
  by (induction xs arbitrary: k) simp_all

subsection \<open>Types of the resources\<close>

lemma type_patient: "resource_type (patient_resource po) = Some (JStr ''Patient'')"
  by (simp add: resource_type_def patient_resource_def patient_age_part_def
      patient_gender_part_def patient_name_part_def jget_simps Let_def split: option.split)

lemma id_patient: "jget ''id'' (patient_resource po) = Some (JStr ''patient-1'')"
  by (simp add: patient_resource_def patient_age_part_def patient_id_def
      patient_gender_part_def patient_name_part_def jget_simps Let_def split: option.split)

lemma type_condition: "resource_type (condition_resource ic) = Some (JStr ''Condition'')"
  by (cases ic) (simp add: resource_type_def condition_resource_def jget_simps)

lemma type_med: "resource_type (med_resource im) = Some (JStr ''MedicationRequest'')"
  by (cases im) (simp add: resource_type_def med_resource_def jget_simps Let_def)

lemma type_vital: "resource_type (vital_resource i v) = Some (JStr ''Observation'')"
  by (simp add: resource_type_def vital_resource_def jget_simps)

lemma type_lab: "resource_type (lab_resource i l) = Some (JStr ''Observation'')"
  by (simp add: resource_type_def lab_resource_def jget_simps)

lemma type_careplan:
  "r \<in> set (careplan_resources items) \<Longrightarrow> resource_type r = Some (JStr ''CarePlan'')"
  by (auto simp add: resource_type_def careplan_resources_def jget_simps Let_def split: if_splits)

lemma type_observation:
  "r \<in> set (observation_resources vs ls) \<Longrightarrow> resource_type r = Some (JStr ''Observation'')"
  by (auto simp add: observation_resources_eq type_vital type_lab)

lemma subject_condition: "jget ''subject'' (condition_resource ic) = Some subject"
  by (cases ic) (simp add: condition_resource_def jget_simps)

lemma subject_med: "jget ''subject'' (med_resource im) = Some subject"
  by (cases im) (simp add: med_resource_def jget_simps Let_def)

lemma subject_observation:
  "r \<in> set (observation_resources vs ls) \<Longrightarrow> jget ''subject'' r = Some subject"
  by (auto simp add: observation_resources_eq vital_resource_def lab_resource_def jget_simps)

lemma subject_careplan:
  "r \<in> set (careplan_resources items) \<Longrightarrow> jget ''subject'' r = Some subject"
  by (auto simp add: careplan_resources_def jget_simps Let_def split: if_splits)

lemma subject_eq: "subject = JObj [(''reference'', JStr ''Patient/patient-1'')]"
  by (simp add: subject_def patient_id_def)

lemma references_patient_rest:
  assumes "r \<in> set (tl (resources s))"
  shows "references_patient r"
proof -
  from assms consider
      (c) "r \<in> set (map condition_resource (enumerate 1 (conditions s)))"
    | (m) "r \<in> set (map med_resource (enumerate 1 (medications s)))"
    | (ob) "r \<in> set (observation_resources (vitals s) (labs s))"
    | (p) "r \<in> set (careplan_resources (plan s))"
    by (auto simp add: resources_def)
  then show ?thesis
  proof cases
    case c
    then show ?thesis
      by (auto simp add: references_patient_def type_condition subject_condition subject_eq [symmetric])
  next
    case m
    then show ?thesis
      by (auto simp add: references_patient_def type_med subject_med subject_eq [symmetric])
  next
    case ob
    then show ?thesis
      by (simp add: references_patient_def type_observation subject_observation subject_eq [symmetric])
  next
    case p
    then show ?thesis
      by (simp add: references_patient_def type_careplan subject_careplan subject_eq [symmetric])
  qed
qed

lemma of_type_resources:
  "of_type t (resources s) =
     of_type t [patient_resource (patient s)]
     @ of_type t (map condition_resource (enumerate 1 (conditions s)))
     @ of_type t (map med_resource (enumerate 1 (medications s)))
     @ of_type t (observation_resources (vitals s) (labs s))
     @ of_type t (careplan_resources (plan s))"
  by (simp add: of_type_def resources_def)

lemma of_type_all:
  "\<forall>r \<in> set rs. resource_type r = Some (JStr t) \<Longrightarrow> of_type t rs = rs"
  by (simp add: of_type_def)

lemma of_type_none:
  "\<forall>r \<in> set rs. resource_type r = Some (JStr t') \<Longrightarrow> t' \<noteq> t \<Longrightarrow> of_type t rs = []"
  by (auto simp add: of_type_def filter_empty_conv)

lemma of_type_Patient: "of_type ''Patient'' (resources s) = [patient_resource (patient s)]"
  unfolding of_type_resources
  by (simp add: of_type_all type_patient
      of_type_none [where t' = "''Condition''"] type_condition
      of_type_none [where t' = "''MedicationRequest''"] type_med
      of_type_none [where t' = "''Observation''"] type_observation
      of_type_none [where t' = "''CarePlan''"] type_careplan)

lemma of_type_Observation:
  "of_type ''Observation'' (resources s) = observation_resources (vitals s) (labs s)"
  unfolding of_type_resources
  by (simp add: of_type_all type_observation
      of_type_none [where t' = "''Patient''"] type_patient
      of_type_none [where t' = "''Condition''"] type_condition
      of_type_none [where t' = "''MedicationRequest''"] type_med
      of_type_none [where t' = "''CarePlan''"] type_careplan)

lemma of_type_CarePlan:
  "of_type ''CarePlan'' (resources s) = careplan_resources (plan s)"
  unfolding of_type_resources
  by (simp add: of_type_all type_careplan
      of_type_none [where t' = "''Patient''"] type_patient
      of_type_none [where t' = "''Condition''"] type_condition
      of_type_none [where t' = "''MedicationRequest''"] type_med
      of_type_none [where t' = "''Observation''"] type_observation)

text \<open>
  C1. For every StructuredNote, also one with no patient and empty lists, the bundle holds
  exactly one Patient resource; it is the first entry and has the id \<^verbatim>\<open>patient-1\<close>; every
  other entry is a Condition, MedicationRequest, Observation or CarePlan whose subject
  reference is \<^verbatim>\<open>Patient/patient-1\<close>.
\<close>

theorem one_patient_first:
  "(let rs = bundle_resources (structured_to_fhir structured) in
      of_type ''Patient'' rs = [hd rs]
      \<and> rs \<noteq> []
      \<and> jget ''id'' (hd rs) = Some (JStr ''patient-1'')
      \<and> (\<forall>r \<in> set (tl rs). references_patient r))"
proof -
  let ?rs = "resources structured"
  have hd: "hd ?rs = patient_resource (patient structured)" and ne: "?rs \<noteq> []"
    by (simp_all add: resources_def)
  have rest: "\<forall>r \<in> set (tl ?rs). references_patient r"
    using references_patient_rest by blast
  with hd ne show ?thesis
    by (simp add: bundle_resources_structured_to_fhir of_type_Patient id_patient)
qed


text \<open>The property at a note without patient fields and one entity in each list.\<close>

theorem one_patient_first_witness:
  "(let rs = bundle_resources (structured_to_fhir
       \<lparr>patient = None,
        conditions = [\<lparr>c_name = ''hypertension'', c_icd10_code = Some ''I10''\<rparr>],
        medications = [\<lparr>m_name = ''lisinopril'', m_dose = Some ''10mg'', m_route = Some ''oral'',
                        m_frequency = Some ''daily'', m_rxnorm_code = None\<rparr>],
        vitals = [\<lparr>v_type = ''blood pressure'', v_value = ''140/90'', v_unit = Some ''mmHg''\<rparr>],
        labs = [\<lparr>l_name = ''HbA1c'', l_value = Some ''7.2'', l_unit = Some ''%''\<rparr>],
        plan = [\<lparr>description = ''Start lisinopril''\<rparr>]\<rparr>) in
      length (tl rs) = 5
      \<and> of_type ''Patient'' rs = [hd rs]
      \<and> rs \<noteq> []
      \<and> jget ''id'' (hd rs) = Some (JStr ''patient-1'')
      \<and> (\<forall>r \<in> set (tl rs). references_patient r))"
proof -
  let ?s = "\<lparr>patient = None,
        conditions = [\<lparr>c_name = ''hypertension'', c_icd10_code = Some ''I10''\<rparr>],
        medications = [\<lparr>m_name = ''lisinopril'', m_dose = Some ''10mg'', m_route = Some ''oral'',
                        m_frequency = Some ''daily'', m_rxnorm_code = None\<rparr>],
        vitals = [\<lparr>v_type = ''blood pressure'', v_value = ''140/90'', v_unit = Some ''mmHg''\<rparr>],
        labs = [\<lparr>l_name = ''HbA1c'', l_value = Some ''7.2'', l_unit = Some ''%''\<rparr>],
        plan = [\<lparr>description = ''Start lisinopril''\<rparr>]\<rparr>"
  have "length (tl (bundle_resources (structured_to_fhir ?s))) = 5"
    by code_simp
  with one_patient_first [of ?s] show ?thesis
    by (simp add: Let_def)
qed

lemma gender_of_patient:
  "jget ''gender'' (patient_resource (Some p)) =
     (case p_sex p of
        None \<Rightarrow> None
      | Some s \<Rightarrow>
          if s = [] then None
          else Some (JStr (if lower s \<in> gender_vocabulary then lower s else ''unknown'')))"
  by (simp add: patient_resource_def patient_age_part_def patient_gender_part_def
      patient_name_part_def jget_simps Let_def truthy_str_def gender_vocabulary_def
      split: option.split)

text \<open>
  C5, as the code has it. A sex that is null or the empty string attaches no gender. Every
  other sex is lower-cased; the result is the gender when it is one of male, female, other,
  unknown, and the gender is \<^verbatim>\<open>unknown\<close> otherwise. Whatever gender is attached is one of
  the four.
\<close>

theorem gender_closed_vocabulary:
  "jget ''gender'' (patient_resource None) = None
   \<and> jget ''gender'' (patient_resource (Some p)) =
     (case p_sex p of
        None \<Rightarrow> None
      | Some s \<Rightarrow>
          if s = [] then None
          else Some (JStr (if lower s \<in> gender_vocabulary then lower s else ''unknown'')))
   \<and> (\<forall>g. jget ''gender'' (patient_resource po) = Some g \<longrightarrow> g \<in> JStr ` gender_vocabulary)"
proof -
  have none: "jget ''gender'' (patient_resource None) = None"
    by (simp add: patient_resource_def jget_simps)
  have "g \<in> JStr ` gender_vocabulary" if "jget ''gender'' (patient_resource po) = Some g" for g
  proof (cases po)
    case None
    with that none show ?thesis by simp
  next
    case (Some q)
    with that show ?thesis
      by (auto simp add: gender_of_patient gender_vocabulary_def split: option.splits if_splits)
  qed
  with none gender_of_patient [of p] show ?thesis
    by blast
qed

text \<open>The match ignores case and is exact.\<close>

theorem gender_closed_vocabulary_witness:
  "jget ''gender'' (patient_resource (Some \<lparr>p_name = None, p_age = None, p_sex = Some ''MALE''\<rparr>))
     = Some (JStr ''male'')
   \<and> jget ''gender'' (patient_resource (Some \<lparr>p_name = None, p_age = None, p_sex = Some ''M''\<rparr>))
     = Some (JStr ''unknown'')
   \<and> JStr ''male'' \<in> JStr ` gender_vocabulary"
proof -
  have l1: "lower ''MALE'' = ''male''" and l2: "lower ''M'' = ''m''"
    by code_simp+
  have "jget ''gender'' (patient_resource (Some \<lparr>p_name = None, p_age = None, p_sex = Some ''MALE''\<rparr>))
     = Some (JStr ''male'')"
    using gender_closed_vocabulary [of "\<lparr>p_name = None, p_age = None, p_sex = Some ''MALE''\<rparr>"]
    by (simp add: l1 gender_vocabulary_def)
  moreover have "jget ''gender'' (patient_resource (Some \<lparr>p_name = None, p_age = None, p_sex = Some ''M''\<rparr>))
     = Some (JStr ''unknown'')"
    using gender_closed_vocabulary [of "\<lparr>p_name = None, p_age = None, p_sex = Some ''M''\<rparr>"]
    by (simp add: l2 gender_vocabulary_def)
  ultimately show ?thesis
    using gender_closed_vocabulary
      [of "\<lparr>p_name = None, p_age = None, p_sex = Some ''MALE''\<rparr>"
          "Some \<lparr>p_name = None, p_age = None, p_sex = Some ''MALE''\<rparr>"]
    by blast
qed

text \<open>The empty string is a sex other than the four words, and it is not mapped to
  \<^verbatim>\<open>unknown\<close>: the guard at line 36 skips it.\<close>

theorem gender_empty_sex_counterexample:
  "lower '''' \<notin> gender_vocabulary
   \<and> jget ''gender'' (patient_resource (Some \<lparr>p_name = None, p_age = None, p_sex = Some ''''\<rparr>))
       \<noteq> Some (JStr ''unknown'')"
  by (simp add: gender_of_patient lower_def gender_vocabulary_def)

text \<open>
  C6. The guard at line 43 tests the truth value of the age, so the age 0 is treated as no
  age: the Patient resource of a newborn carries no age extension.
\<close>

theorem age_zero_no_extension:
  "jget ''extension'' (patient_resource (Some \<lparr>p_name = None, p_age = Some 0, p_sex = None\<rparr>)) = None"
  by (simp add: patient_resource_def patient_age_part_def patient_gender_part_def
      patient_name_part_def jget_simps Let_def truthy_str_def truthy_int_def)

lemma age_extension:
  "jget ''extension'' (patient_resource (Some p)) =
     (case p_age p of
        None \<Rightarrow> None
      | Some a \<Rightarrow>
          if a = 0 then None
          else Some (JList [JObj [(''url'', JStr ''http://hl7.org/fhir/StructureDefinition/patient-age''),
                                  (''valueInteger'', JInt a)]]))"
  by (simp add: patient_resource_def patient_age_part_def patient_gender_part_def
      patient_name_part_def jget_simps Let_def truthy_int_def split: option.split)


lemma ids_vitals:
  "map (jget ''id'') (map (\<lambda>(i, v). vital_resource i v) (enumerate k vs)) =
     map (\<lambda>n. Some (JStr (''observation-vital-'' @ str_nat n))) [k..<k + length vs]"
proof -
  have "map (jget ''id'') (map (\<lambda>(i, v). vital_resource i v) (enumerate k vs)) =
      map (\<lambda>(i, v). Some (JStr (''observation-vital-'' @ str_nat i))) (enumerate k vs)"
    by (simp add: vital_resource_def jget_simps split_def)
  then show ?thesis
    by (simp only: map_enumerate_fst)
qed

lemma ids_labs:
  "map (jget ''id'') (map (\<lambda>(i, l). lab_resource i l) (enumerate k ls)) =
     map (\<lambda>n. Some (JStr (''observation-lab-'' @ str_nat n))) [k..<k + length ls]"
proof -
  have "map (jget ''id'') (map (\<lambda>(i, l). lab_resource i l) (enumerate k ls)) =
      map (\<lambda>(i, l). Some (JStr (''observation-lab-'' @ str_nat i))) (enumerate k ls)"
    by (simp add: lab_resource_def jget_simps split_def)
  then show ?thesis
    by (simp only: map_enumerate_fst)
qed

lemma codes_observations:
  "map (jget ''code'') (observation_resources vs ls) =
     map (\<lambda>v. Some (JObj [(''text'', JStr (v_type v))])) vs
     @ map (\<lambda>l. Some (JObj [(''text'', JStr (l_name l))])) ls"
proof -
  have "map (jget ''code'') (map (\<lambda>(i, v). vital_resource i v) (enumerate k vs)) =
      map (\<lambda>(i, v). Some (JObj [(''text'', JStr (v_type v))])) (enumerate k vs)" for k
    by (simp add: vital_resource_def jget_simps split_def)
  moreover have "map (jget ''code'') (map (\<lambda>(i, l). lab_resource i l) (enumerate k ls)) =
      map (\<lambda>(i, l). Some (JObj [(''text'', JStr (l_name l))])) (enumerate k ls)" for k
    by (simp add: lab_resource_def jget_simps split_def)
  ultimately show ?thesis
    by (simp only: observation_resources_eq map_append map_enumerate_snd)
qed

lemma ids_observations:
  "map (jget ''id'') (observation_resources vs ls) =
     map (\<lambda>n. Some (JStr (''observation-vital-'' @ str_nat n))) [1..<1 + length vs]
     @ map (\<lambda>n. Some (JStr (''observation-lab-'' @ str_nat n)))
         [1 + length vs..<1 + length vs + length ls]"
  by (simp only: observation_resources_eq map_append ids_vitals ids_labs)

lemma str_nat_digits:
  "str_nat (Suc 0) = ''1''" "str_nat (Suc (Suc 0)) = ''2''"
  "str_nat (Suc (Suc (Suc 0))) = ''3''" "str_nat (Suc (Suc (Suc (Suc 0)))) = ''4''"
  by (simp_all add: str_nat.simps digit_char_def)

text \<open>
  C7. The Observation resources of the bundle are those of the vitals, in order, followed
  by those of the labs, in order; their ids count from 1 through both lists with one
  counter, and two vitals with two labs give observation-vital-1, observation-vital-2,
  observation-lab-3, observation-lab-4.
\<close>

theorem observation_counter_shared:
  "(let obs = of_type ''Observation'' (bundle_resources (structured_to_fhir s));
        nv = length (vitals s); nl = length (labs s) in
      map (jget ''id'') obs =
        map (\<lambda>n. Some (JStr (''observation-vital-'' @ str_nat n))) [1..<1 + nv]
        @ map (\<lambda>n. Some (JStr (''observation-lab-'' @ str_nat n))) [1 + nv..<1 + nv + nl]
      \<and> map (jget ''code'') obs =
        map (\<lambda>v. Some (JObj [(''text'', JStr (v_type v))])) (vitals s)
        @ map (\<lambda>l. Some (JObj [(''text'', JStr (l_name l))])) (labs s)
      \<and> (nv = 2 \<and> nl = 2 \<longrightarrow>
           map (jget ''id'') obs =
             [Some (JStr ''observation-vital-1''), Some (JStr ''observation-vital-2''),
              Some (JStr ''observation-lab-3''), Some (JStr ''observation-lab-4'')]))"
proof -
  let ?obs = "observation_resources (vitals s) (labs s)"
  have two: "map (jget ''id'') ?obs =
      [Some (JStr ''observation-vital-1''), Some (JStr ''observation-vital-2''),
       Some (JStr ''observation-lab-3''), Some (JStr ''observation-lab-4'')]"
    if "length (vitals s) = 2" "length (labs s) = 2"
  proof -
    show ?thesis
      unfolding ids_observations that
      by (simp add: upt_rec str_nat_digits)
  qed
  show ?thesis
    unfolding Let_def bundle_resources_structured_to_fhir of_type_Observation
    using ids_observations [of "vitals s" "labs s"] codes_observations [of "vitals s" "labs s"] two
    by blast
qed

text \<open>Two vitals and two labs, after a condition that takes no number from the counter.\<close>

theorem observation_counter_shared_witness:
  "map (jget ''id'') (of_type ''Observation'' (bundle_resources (structured_to_fhir
       \<lparr>patient = None, conditions = [\<lparr>c_name = ''hypertension'', c_icd10_code = None\<rparr>], medications = [],
        vitals = [\<lparr>v_type = ''blood pressure'', v_value = ''140/90'', v_unit = Some ''mmHg''\<rparr>,
                  \<lparr>v_type = ''heart rate'', v_value = ''72'', v_unit = None\<rparr>],
        labs = [\<lparr>l_name = ''HbA1c'', l_value = Some ''7.2'', l_unit = Some ''%''\<rparr>,
                \<lparr>l_name = ''LDL'', l_value = Some ''130'', l_unit = None\<rparr>],
        plan = []\<rparr>))) =
     [Some (JStr ''observation-vital-1''), Some (JStr ''observation-vital-2''),
      Some (JStr ''observation-lab-3''), Some (JStr ''observation-lab-4'')]"
proof -
  let ?s = "\<lparr>patient = None, conditions = [\<lparr>c_name = ''hypertension'', c_icd10_code = None\<rparr>], medications = [],
        vitals = [\<lparr>v_type = ''blood pressure'', v_value = ''140/90'', v_unit = Some ''mmHg''\<rparr>,
                  \<lparr>v_type = ''heart rate'', v_value = ''72'', v_unit = None\<rparr>],
        labs = [\<lparr>l_name = ''HbA1c'', l_value = Some ''7.2'', l_unit = Some ''%''\<rparr>,
                \<lparr>l_name = ''LDL'', l_value = Some ''130'', l_unit = None\<rparr>],
        plan = []\<rparr>"
  have "length (vitals ?s) = 2 \<and> length (labs ?s) = 2"
    by simp
  with observation_counter_shared [of ?s, unfolded Let_def, THEN conjunct2, THEN conjunct2]
  show ?thesis
    by (rule mp)
qed

lemma join_non_empty:
  "ps \<noteq> [] \<Longrightarrow> \<forall>p \<in> set ps. p \<noteq> [] \<Longrightarrow> join sep ps \<noteq> []"
  by (induction sep ps rule: join.induct) simp_all

lemma plan_descriptions_empty_iff:
  "plan_descriptions items = [] \<longleftrightarrow> (\<forall>i \<in> set items. description i = [])"
  by (auto simp add: plan_descriptions_def filter_empty_conv)

lemma narrative_text_truthy:
  "truthy_str (narrative_text items) \<longleftrightarrow> (\<exists>i \<in> set items. description i \<noteq> [])"
proof (cases "plan_descriptions items = []")
  case True
  then show ?thesis
    by (simp add: narrative_text_def truthy_str_def plan_descriptions_empty_iff)
next
  case False
  moreover have "\<forall>p \<in> set (plan_descriptions items). p \<noteq> []"
    by (simp add: plan_descriptions_def)
  ultimately have "join '' | '' (plan_descriptions items) \<noteq> []"
    by (rule join_non_empty)
  with False show ?thesis
    by (simp add: narrative_text_def truthy_str_def plan_descriptions_empty_iff)
qed

lemma careplan_resources_Cons:
  assumes "items \<noteq> []"
  shows "\<exists>cp. careplan_resources items = [cp]
     \<and> jget ''id'' cp = Some (JStr ''careplan-1'')
     \<and> jget ''description'' cp =
         (if \<exists>i \<in> set items. description i \<noteq> []
          then Some (JStr (join '' | '' (filter (\<lambda>d. d \<noteq> []) (map description items))))
          else None)"
proof (cases "\<exists>i \<in> set items. description i \<noteq> []")
  case True
  then have "truthy_str (narrative_text items)"
    by (simp add: narrative_text_truthy)
  moreover from True have "plan_descriptions items \<noteq> []"
    by (simp add: plan_descriptions_empty_iff)
  ultimately show ?thesis
    using assms True
    by (simp add: careplan_resources_def Let_def jget_simps narrative_text_def json_of_opt_def
        plan_descriptions_def)
next
  case False
  then have "\<not> truthy_str (narrative_text items)"
    by (simp add: narrative_text_truthy)
  with assms False show ?thesis
    by (simp add: careplan_resources_def Let_def jget_simps)
qed

text \<open>
  C8. The bundle holds a CarePlan exactly when the plan list is not empty, and then one,
  with the id \<^verbatim>\<open>careplan-1\<close>. Its description is present exactly when some plan item has a
  non-empty description, and is then the non-empty descriptions, in order, joined by
  \<^verbatim>\<open> | \<close>.
\<close>

theorem careplan_iff_plan:
  "(let cps = of_type ''CarePlan'' (bundle_resources (structured_to_fhir s)) in
      (plan s = [] \<longrightarrow> cps = [])
      \<and> (plan s \<noteq> [] \<longrightarrow>
           (\<exists>cp. cps = [cp]
              \<and> jget ''id'' cp = Some (JStr ''careplan-1'')
              \<and> jget ''description'' cp =
                  (if \<exists>i \<in> set (plan s). description i \<noteq> []
                   then Some (JStr (join '' | '' (filter (\<lambda>d. d \<noteq> []) (map description (plan s)))))
                   else None))))"
  unfolding Let_def bundle_resources_structured_to_fhir of_type_CarePlan
  using careplan_resources_Cons [of "plan s"]
  by (simp add: careplan_resources_def)


text \<open>A plan of three items, one with an empty description, and the empty plan.\<close>

theorem careplan_iff_plan_witness:
  "map (jget ''description'') (of_type ''CarePlan'' (bundle_resources (structured_to_fhir
       \<lparr>patient = None, conditions = [], medications = [], vitals = [], labs = [],
        plan = [\<lparr>description = ''Start lisinopril''\<rparr>, \<lparr>description = ''''\<rparr>,
                \<lparr>description = ''Recheck in 2 weeks''\<rparr>]\<rparr>))) =
     [Some (JStr ''Start lisinopril | Recheck in 2 weeks'')]
   \<and> of_type ''CarePlan'' (bundle_resources (structured_to_fhir
       \<lparr>patient = None, conditions = [], medications = [], vitals = [], labs = [], plan = []\<rparr>)) = []"
proof -
  let ?s = "\<lparr>patient = None, conditions = [], medications = [], vitals = [], labs = [],
        plan = [\<lparr>description = ''Start lisinopril''\<rparr>, \<lparr>description = ''''\<rparr>,
                \<lparr>description = ''Recheck in 2 weeks''\<rparr>]\<rparr>"
  let ?e = "\<lparr>patient = None, conditions = [], medications = [], vitals = [], labs = [], plan = []\<rparr>"
  have "plan ?s \<noteq> []"
    by simp
  with careplan_iff_plan [of ?s, unfolded Let_def, THEN conjunct2]
  obtain cp where "of_type ''CarePlan'' (bundle_resources (structured_to_fhir ?s)) = [cp]"
    and "jget ''description'' cp =
      (if \<exists>i \<in> set (plan ?s). description i \<noteq> []
       then Some (JStr (join '' | '' (filter (\<lambda>d. d \<noteq> []) (map description (plan ?s)))))
       else None)"
    by blast
  then have one: "map (jget ''description'') (of_type ''CarePlan'' (bundle_resources (structured_to_fhir ?s)))
      = [Some (JStr ''Start lisinopril | Recheck in 2 weeks'')]"
    by simp
  have "plan ?e = []"
    by simp
  with careplan_iff_plan [of ?e, unfolded Let_def, THEN conjunct1]
  have "of_type ''CarePlan'' (bundle_resources (structured_to_fhir ?e)) = []"
    by (rule mp)
  with one show ?thesis
    by (rule conjI)
qed

lemma dosage_text_eq:
  "dosage_text med =
     (let parts = non_empty_parts [m_dose med, m_frequency med]
      in if parts = [] then None else Some (join '' '' parts))"
  by (cases "m_dose med"; cases "m_frequency med")
    (simp_all add: dosage_text_def med_text_parts_def non_empty_parts_def truthy_str_def)

lemma dosage_text_truthy:
  "truthy_str (dosage_text med) \<longleftrightarrow> non_empty_parts [m_dose med, m_frequency med] \<noteq> []"
proof (cases "non_empty_parts [m_dose med, m_frequency med] = []")
  case True
  then show ?thesis
    by (simp add: dosage_text_eq truthy_str_def)
next
  case False
  moreover have "\<forall>p \<in> set (non_empty_parts [m_dose med, m_frequency med]). p \<noteq> []"
    by (simp add: non_empty_parts_def)
  ultimately have "join '' '' (non_empty_parts [m_dose med, m_frequency med]) \<noteq> []"
    by (rule join_non_empty)
  with False show ?thesis
    by (simp add: dosage_text_eq truthy_str_def)
qed

lemma dosage_instruction_eq:
  "jget ''dosageInstruction'' (med_resource (idx, med)) =
     (let parts = non_empty_parts [m_dose med, m_frequency med]
      in if parts = [] then None else Some (JList [JObj [(''text'', JStr (join '' '' parts))]]))"
proof (cases "non_empty_parts [m_dose med, m_frequency med] = []")
  case True
  then have "\<not> truthy_str (dosage_text med)"
    by (simp add: dosage_text_truthy)
  with True show ?thesis
    by (simp add: med_resource_def Let_def jget_simps)
next
  case False
  then have "truthy_str (dosage_text med)"
    by (simp add: dosage_text_truthy)
  moreover from False have "dosage_text med = Some (join '' '' (non_empty_parts [m_dose med, m_frequency med]))"
    by (simp add: dosage_text_eq)
  ultimately show ?thesis
    using False by (simp add: med_resource_def Let_def jget_simps json_of_opt_def)
qed

lemma med_resource_route:
  "med_resource (idx, med\<lparr>m_route := r\<rparr>) = med_resource (idx, med)"
  by (simp add: med_resource_def dosage_text_def med_text_parts_def Let_def)

text \<open>
  C9, as the code has it. A MedicationRequest carries a dosage instruction exactly when
  the dose or the frequency is a non-empty string, and its text is the non-empty ones of
  dose and frequency, in this order, joined by one space. The route changes nothing.
  A dose 10mg with a frequency daily gives \<^verbatim>\<open>10mg daily\<close>.
\<close>

theorem dosage_instruction_text:
  "jget ''dosageInstruction'' (med_resource (idx, med)) =
     (let parts = non_empty_parts [m_dose med, m_frequency med]
      in if parts = [] then None else Some (JList [JObj [(''text'', JStr (join '' '' parts))]]))
   \<and> med_resource (idx, med\<lparr>m_route := r\<rparr>) = med_resource (idx, med)
   \<and> (m_dose med = Some ''10mg'' \<and> m_frequency med = Some ''daily'' \<longrightarrow>
        jget ''dosageInstruction'' (med_resource (idx, med)) =
          Some (JList [JObj [(''text'', JStr ''10mg daily'')]]))"
proof -
  have "jget ''dosageInstruction'' (med_resource (idx, med)) =
      Some (JList [JObj [(''text'', JStr ''10mg daily'')]])"
    if "m_dose med = Some ''10mg''" "m_frequency med = Some ''daily''"
    using that by (simp add: dosage_instruction_eq non_empty_parts_def)
  with dosage_instruction_eq [where idx = idx and med = med]
    med_resource_route [where idx = idx and med = med and r = r] show ?thesis
    by blast
qed

text \<open>The example of the specification, with the route oral.\<close>

theorem dosage_instruction_text_witness:
  "jget ''dosageInstruction'' (med_resource (1,
       \<lparr>m_name = ''lisinopril'', m_dose = Some ''10mg'', m_route = Some ''oral'',
        m_frequency = Some ''daily'', m_rxnorm_code = None\<rparr>)) =
     Some (JList [JObj [(''text'', JStr ''10mg daily'')]])"
proof -
  let ?m = "\<lparr>m_name = ''lisinopril'', m_dose = Some ''10mg'', m_route = Some ''oral'',
        m_frequency = Some ''daily'', m_rxnorm_code = None\<rparr>"
  have "m_dose ?m = Some ''10mg'' \<and> m_frequency ?m = Some ''daily''"
    by simp
  with dosage_instruction_text [where idx = 1 and med = ?m and r = "Some ''oral''",
      THEN conjunct2, THEN conjunct2]
  show ?thesis
    by (rule mp)
qed

text \<open>A dose that is present as the empty string gives no dosage instruction.\<close>

theorem dosage_empty_dose_counterexample:
  "m_dose \<lparr>m_name = ''aspirin'', m_dose = Some '''', m_route = None, m_frequency = None,
           m_rxnorm_code = None\<rparr> \<noteq> None
   \<and> jget ''dosageInstruction'' (med_resource (1,
       \<lparr>m_name = ''aspirin'', m_dose = Some '''', m_route = None, m_frequency = None,
        m_rxnorm_code = None\<rparr>)) = None"
  by (simp add: dosage_instruction_eq non_empty_parts_def)

text \<open>
  C10, as the code has it. For a lab whose value is null, the \<^verbatim>\<open>valueString\<close> is the text
  \<^verbatim>\<open>None\<close>, a space and the unit when the unit is a non-empty string, and is null when the
  unit is null or the empty string.
\<close>

theorem lab_null_value_string:
  "l_value lab = None \<Longrightarrow>
   jget ''valueString'' (lab_resource n lab) =
     Some (case l_unit lab of
             None \<Rightarrow> JNull
           | Some u \<Rightarrow> if u = [] then JNull else JStr (''None '' @ u))"
  by (simp add: lab_resource_def jget_simps truthy_str_def format_opt_def json_of_opt_def
      split: option.split)

text \<open>A null value with the unit \<^verbatim>\<open>%\<close>, and with no unit.\<close>

theorem lab_null_value_string_witness:
  "jget ''valueString'' (lab_resource 3 \<lparr>l_name = ''HbA1c'', l_value = None, l_unit = Some ''%''\<rparr>)
     = Some (JStr ''None %'')
   \<and> jget ''valueString'' (lab_resource 3 \<lparr>l_name = ''HbA1c'', l_value = None, l_unit = None\<rparr>)
     = Some JNull"
proof -
  have "l_value \<lparr>l_name = ''HbA1c'', l_value = None, l_unit = Some ''%''\<rparr> = None"
    and "l_value \<lparr>l_name = ''HbA1c'', l_value = None, l_unit = None\<rparr> = None"
    by simp_all
  then show ?thesis
    using lab_null_value_string [of "\<lparr>l_name = ''HbA1c'', l_value = None, l_unit = Some ''%''\<rparr>" 3]
      lab_null_value_string [of "\<lparr>l_name = ''HbA1c'', l_value = None, l_unit = None\<rparr>" 3]
    by simp
qed

text \<open>A unit that is present as the empty string is not appended to the text
  \<^verbatim>\<open>None\<close>: the \<^verbatim>\<open>valueString\<close> stays null.\<close>

theorem lab_empty_unit_counterexample:
  "l_unit \<lparr>l_name = ''HbA1c'', l_value = None, l_unit = Some ''''\<rparr> \<noteq> None
   \<and> jget ''valueString'' (lab_resource 1 \<lparr>l_name = ''HbA1c'', l_value = None, l_unit = Some ''''\<rparr>)
       \<noteq> Some (JStr (''None '' @ ''''))"
  by (simp add: lab_resource_def jget_simps truthy_str_def json_of_opt_def)

subsection \<open>Parse failure\<close>

lemma call_llm_parse_error:
  assumes "loads (fence_strip content) = Inl e"
  shows "call_llm_for_structure loads content =
     Inl (RuntimeError (''Failed to parse LLM JSON: '' @ e @ [CHR 0x0A] @ ''Raw content:''
                        @ [CHR 0x0A] @ fence_strip content))"
  using assms by (simp add: call_llm_for_structure_def Let_def)

lemma carries_append: "carries x (a @ x @ b)" "carries x (a @ x)"
  unfolding carries_def by (metis sublist_appendI, metis append_Nil2 sublist_appendI)

text \<open>
  C3, as the code has it. When the text left after fence-stripping is not valid JSON, the
  normalizer raises an error, so no StructuredNote is returned; the error message carries
  the diagnostic of the parser and the text that was handed to the parser, which is the
  reply after fence-stripping.
\<close>

theorem parse_failure_raises:
  assumes "loads (fence_strip content) = Inl e"
  shows "\<exists>message.
      call_llm_for_structure loads content = Inl (RuntimeError message)
      \<and> extract_structured_note L loads icd rx content = Inl (RuntimeError message)
      \<and> carries e message
      \<and> carries (fence_strip content) message"
proof -
  let ?m = "''Failed to parse LLM JSON: '' @ e @ [CHR 0x0A] @ ''Raw content:''
      @ [CHR 0x0A] @ fence_strip content"
  have c: "call_llm_for_structure loads content = Inl (RuntimeError ?m)"
    using assms by (rule call_llm_parse_error)
  then have "extract_structured_note L loads icd rx content = Inl (RuntimeError ?m)"
    by (simp add: extract_structured_note_def and_then_def)
  moreover have "carries e ?m"
    by (rule carries_append)
  moreover have "carries (fence_strip content) ?m"
    using carries_append(2) [of "fence_strip content" "''Failed to parse LLM JSON: '' @ e @ [CHR 0x0A] @ ''Raw content:'' @ [CHR 0x0A]"]
    by simp
  ultimately show ?thesis
    using c by blast
qed

lemma fence_example:
  "fence_strip (''```json'' @ [CHR 0x0A] @ ''{'' @ [CHR 0x0A] @ ''```'') = ''{'' @ [CHR 0x0A]"
  by code_simp


text \<open>A fenced reply with an unbalanced brace.\<close>

theorem parse_failure_raises_witness:
  "\<exists>message.
      call_llm_for_structure (rejecting_parser ''Expecting property name enclosed in double quotes'')
        (''```json'' @ [CHR 0x0A] @ ''{'' @ [CHR 0x0A] @ ''```'') = Inl (RuntimeError message)
      \<and> extract_structured_note strict (rejecting_parser ''Expecting property name enclosed in double quotes'')
          timed_out timed_out (''```json'' @ [CHR 0x0A] @ ''{'' @ [CHR 0x0A] @ ''```'') = Inl (RuntimeError message)
      \<and> carries ''Expecting property name enclosed in double quotes'' message
      \<and> carries (fence_strip (''```json'' @ [CHR 0x0A] @ ''{'' @ [CHR 0x0A] @ ''```'')) message"
  by (rule parse_failure_raises) (simp add: rejecting_parser_def)

text \<open>For the same reply, the message holds the brace and the line break that were left
  after fence-stripping; the reply as it came, with its fence, is no part of the message.\<close>

theorem parse_failure_original_text_counterexample:
  "call_llm_for_structure (rejecting_parser ''Expecting property name enclosed in double quotes'')
     (''```json'' @ [CHR 0x0A] @ ''{'' @ [CHR 0x0A] @ ''```'') =
     Inl (RuntimeError (''Failed to parse LLM JSON: Expecting property name enclosed in double quotes''
                        @ [CHR 0x0A] @ ''Raw content:'' @ [CHR 0x0A] @ ''{'' @ [CHR 0x0A]))
   \<and> \<not> carries (''```json'' @ [CHR 0x0A] @ ''{'' @ [CHR 0x0A] @ ''```'')
         (''Failed to parse LLM JSON: Expecting property name enclosed in double quotes''
          @ [CHR 0x0A] @ ''Raw content:'' @ [CHR 0x0A] @ ''{'' @ [CHR 0x0A])"
proof -
  have "call_llm_for_structure (rejecting_parser ''Expecting property name enclosed in double quotes'')
     (''```json'' @ [CHR 0x0A] @ ''{'' @ [CHR 0x0A] @ ''```'') =
     Inl (RuntimeError (''Failed to parse LLM JSON: Expecting property name enclosed in double quotes''
                        @ [CHR 0x0A] @ ''Raw content:'' @ [CHR 0x0A] @ ''{'' @ [CHR 0x0A]))"
    by code_simp
  moreover have "\<not> carries (''```json'' @ [CHR 0x0A] @ ''{'' @ [CHR 0x0A] @ ''```'')
         (''Failed to parse LLM JSON: Expecting property name enclosed in double quotes''
          @ [CHR 0x0A] @ ''Raw content:'' @ [CHR 0x0A] @ ''{'' @ [CHR 0x0A])"
    by code_simp
  ultimately show ?thesis
    by (rule conjI)
qed

subsection \<open>Enrichment\<close>

lemma py_index_item:
  "py_index x i = (if has_item x i then Some (item x i) else None)"
  by (cases x) (simp_all add: py_index_def has_item_def item_def)

lemma lookup_icd10_failed:
  "icd10_lookup_failed (get n) \<Longrightarrow> lookup_icd10 get n = JNull"
  by (cases "get n")
    (auto simp add: icd10_lookup_failed_def lookup_icd10_def raise_for_status_def py_index_item
      split: option.splits)

lemma first_of_ids:
  "(if truthy ids
    then (case py_len ids of
            None \<Rightarrow> JNull
          | Some n \<Rightarrow> if n > 0 then (case py_index ids 0 of None \<Rightarrow> JNull | Some c \<Rightarrow> c) else JNull)
    else JNull) =
   (if truthy ids \<and> has_item ids 0 then item ids 0 else JNull)"
  by (cases ids) (auto simp add: py_len_def py_index_def has_item_def item_def)

lemma lookup_rxnorm_failed:
  assumes "rxnorm_lookup_failed (get n)"
  shows "lookup_rxnorm get n = JNull"
proof (cases "get n")
  case RequestException
  then show ?thesis
    by (simp add: lookup_rxnorm_def)
next
  case (Response status_code body)
  show ?thesis
  proof (cases "400 \<le> status_code \<and> status_code < 600")
    case True
    with Response show ?thesis
      by (simp add: lookup_rxnorm_def raise_for_status_def)
  next
    case False
    with assms Response show ?thesis
      unfolding lookup_rxnorm_def Let_def first_of_ids
      by (auto simp add: rxnorm_lookup_failed_def raise_for_status_def dict_get_def
          dict_get_default_def split: option.splits json.splits)
  qed
qed

lemma requests_before_0: "requests_before es 0 = 0"
  by (simp add: requests_before_def)

lemma requests_before_Suc:
  "requests_before (e # es) (Suc i) = (if truthy (name_of e) then 1 else 0) + requests_before es i"
  by (simp add: requests_before_def)

lemma for_each_counting_dicts:
  assumes step: "\<And>k x. is_dict x \<Longrightarrow>
      f k x = Inr (with_code key (lk (get k)) x, if truthy (name_of x) then k + 1 else k)"
    and "\<forall>x \<in> set xs. is_dict x"
  shows "\<exists>ys. for_each_counting f k xs = Inr ys \<and> length ys = length xs
      \<and> (\<forall>i < length xs. ys ! i = with_code key (lk (get (k + requests_before xs i))) (xs ! i))"
  using assms(2)
proof (induction xs arbitrary: k)
  case Nil
  then show ?case by simp
next
  case (Cons x xs)
  let ?k = "if truthy (name_of x) then k + 1 else k"
  from Cons.prems have x: "f k x = Inr (with_code key (lk (get k)) x, ?k)"
    by (simp add: step)
  from Cons.prems have "\<forall>x \<in> set xs. is_dict x"
    by simp
  from Cons.IH [OF this, of ?k] obtain ys where
    ys: "for_each_counting f ?k xs = Inr ys" "length ys = length xs"
    and at: "\<forall>i < length xs. ys ! i = with_code key (lk (get (?k + requests_before xs i))) (xs ! i)"
    by blast
  have "(with_code key (lk (get k)) x # ys) ! i =
      with_code key (lk (get (k + requests_before (x # xs) i))) ((x # xs) ! i)"
    if "i < length (x # xs)" for i
  proof (cases i)
    case 0
    then show ?thesis
      by (simp add: requests_before_0)
  next
    case (Suc j)
    with that at show ?thesis
      by (simp add: requests_before_Suc)
  qed
  with x ys show ?case
    by simp
qed

lemma enrich_condition_dict:
  "is_dict x \<Longrightarrow>
   enrich_condition get k x =
     Inr (with_code ''icd10_code'' (lookup_icd10 (get k)) x, if truthy (name_of x) then k + 1 else k)"
  by (cases x) (simp_all add: is_dict_def enrich_condition_def with_code_def name_of_def Let_def)

lemma enrich_medication_dict:
  "is_dict x \<Longrightarrow>
   enrich_medication get k x =
     Inr (with_code ''rxnorm_code'' (lookup_rxnorm (get k)) x, if truthy (name_of x) then k + 1 else k)"
  by (cases x) (simp_all add: is_dict_def enrich_medication_def with_code_def name_of_def Let_def)

lemma py_iter_or_empty_list: "py_iter (or_empty_list (JList xs)) = Inr xs"
  by (simp add: py_iter_def or_empty_list_def)

lemma enrich_with_codes_entities:
  assumes "map_of d ''conditions'' = Some (JList cs)" and "map_of d ''medications'' = Some (JList ms)"
    and "\<forall>c \<in> set cs. is_dict c" and "\<forall>m \<in> set ms. is_dict m"
  shows "\<exists>cs' ms'.
      enrich_with_codes icd rx (JObj d) =
        Inr (JObj (dict_set ''medications'' (JList ms') (dict_set ''conditions'' (JList cs') d)))
      \<and> length cs' = length cs \<and> length ms' = length ms
      \<and> (\<forall>i < length cs. cs' ! i =
            with_code ''icd10_code'' (lookup_icd10 (icd (requests_before cs i))) (cs ! i))
      \<and> (\<forall>i < length ms. ms' ! i =
            with_code ''rxnorm_code'' (lookup_rxnorm (rx (requests_before ms i))) (ms ! i))"
proof -
  from for_each_counting_dicts [of "enrich_condition icd" "''icd10_code''" lookup_icd10 icd cs 0]
  obtain cs' where cs': "for_each_counting (enrich_condition icd) 0 cs = Inr cs'" "length cs' = length cs"
    "\<forall>i < length cs. cs' ! i = with_code ''icd10_code'' (lookup_icd10 (icd (requests_before cs i))) (cs ! i)"
    using assms(3) by (auto simp add: enrich_condition_dict)
  from for_each_counting_dicts [of "enrich_medication rx" "''rxnorm_code''" lookup_rxnorm rx ms 0]
  obtain ms' where ms': "for_each_counting (enrich_medication rx) 0 ms = Inr ms'" "length ms' = length ms"
    "\<forall>i < length ms. ms' ! i = with_code ''rxnorm_code'' (lookup_rxnorm (rx (requests_before ms i))) (ms ! i)"
    using assms(4) by (auto simp add: enrich_medication_dict)
  have "enrich_with_codes icd rx (JObj d) =
      Inr (JObj (dict_set ''medications'' (JList ms') (dict_set ''conditions'' (JList cs') d)))"
    using assms(1,2) cs'(1) ms'(1)
    by (simp add: enrich_with_codes_def dict_get_def dict_get_default_def py_iter_or_empty_list)
  with cs'(2,3) ms'(2,3) show ?thesis
    by blast
qed

lemma with_code_named:
  "is_dict e \<Longrightarrow> truthy (name_of e) \<Longrightarrow> jget key (with_code key lookup e) = Some (lookup (name_of e))"
  by (cases e) (simp_all add: is_dict_def with_code_def jget_def dict_set_def update_conv')

lemma with_code_unnamed:
  "\<not> truthy (name_of e) \<Longrightarrow> with_code key lookup e = e"
  by (cases e) (simp_all add: with_code_def)

text \<open>
  C2, as the code has it. For every list of condition objects and every list of medication
  objects, and whatever the outcome of each request, the enrichment returns without an
  exception and keeps both lists at their length. Every entity with a name gets as its
  code the result of its own request, which is numbered by the named entities before it,
  so that the outcome of no request reaches another entity. That code is null when the
  request failed: it raised, its status was one of 400 to 599, its body did not decode,
  the decoded body had not the shape that the lookup reads, or the result set was empty.
  An entity without a name is left as it is.
\<close>

theorem enrichment_fail_soft:
  assumes "map_of d ''conditions'' = Some (JList cs)" and "map_of d ''medications'' = Some (JList ms)"
    and "\<forall>c \<in> set cs. is_dict c" and "\<forall>m \<in> set ms. is_dict m"
  shows "\<exists>cs' ms'.
      enrich_with_codes icd rx (JObj d) =
        Inr (JObj (dict_set ''medications'' (JList ms') (dict_set ''conditions'' (JList cs') d)))
      \<and> length cs' = length cs \<and> length ms' = length ms
      \<and> (\<forall>i < length cs.
            (truthy (name_of (cs ! i))
               \<and> icd10_lookup_failed (icd (requests_before cs i) (name_of (cs ! i)))
               \<longrightarrow> jget ''icd10_code'' (cs' ! i) = Some JNull)
            \<and> (truthy (name_of (cs ! i))
               \<longrightarrow> jget ''icd10_code'' (cs' ! i) =
                     Some (lookup_icd10 (icd (requests_before cs i)) (name_of (cs ! i))))
            \<and> (\<not> truthy (name_of (cs ! i)) \<longrightarrow> cs' ! i = cs ! i))
      \<and> (\<forall>i < length ms.
            (truthy (name_of (ms ! i))
               \<and> rxnorm_lookup_failed (rx (requests_before ms i) (name_of (ms ! i)))
               \<longrightarrow> jget ''rxnorm_code'' (ms' ! i) = Some JNull)
            \<and> (truthy (name_of (ms ! i))
               \<longrightarrow> jget ''rxnorm_code'' (ms' ! i) =
                     Some (lookup_rxnorm (rx (requests_before ms i)) (name_of (ms ! i))))
            \<and> (\<not> truthy (name_of (ms ! i)) \<longrightarrow> ms' ! i = ms ! i))"
proof -
  from enrich_with_codes_entities [OF assms, of icd rx] obtain cs' ms' where
    r: "enrich_with_codes icd rx (JObj d) =
        Inr (JObj (dict_set ''medications'' (JList ms') (dict_set ''conditions'' (JList cs') d)))"
    and len: "length cs' = length cs" "length ms' = length ms"
    and c: "\<forall>i < length cs. cs' ! i =
        with_code ''icd10_code'' (lookup_icd10 (icd (requests_before cs i))) (cs ! i)"
    and m: "\<forall>i < length ms. ms' ! i =
        with_code ''rxnorm_code'' (lookup_rxnorm (rx (requests_before ms i))) (ms ! i)"
    by blast
  have "\<forall>i < length cs.
      (truthy (name_of (cs ! i))
         \<and> icd10_lookup_failed (icd (requests_before cs i) (name_of (cs ! i)))
         \<longrightarrow> jget ''icd10_code'' (cs' ! i) = Some JNull)
      \<and> (truthy (name_of (cs ! i))
         \<longrightarrow> jget ''icd10_code'' (cs' ! i) =
               Some (lookup_icd10 (icd (requests_before cs i)) (name_of (cs ! i))))
      \<and> (\<not> truthy (name_of (cs ! i)) \<longrightarrow> cs' ! i = cs ! i)"
    using assms(3) c by (simp add: with_code_named with_code_unnamed lookup_icd10_failed)
  moreover have "\<forall>i < length ms.
      (truthy (name_of (ms ! i))
         \<and> rxnorm_lookup_failed (rx (requests_before ms i) (name_of (ms ! i)))
         \<longrightarrow> jget ''rxnorm_code'' (ms' ! i) = Some JNull)
      \<and> (truthy (name_of (ms ! i))
         \<longrightarrow> jget ''rxnorm_code'' (ms' ! i) =
               Some (lookup_rxnorm (rx (requests_before ms i)) (name_of (ms ! i))))
      \<and> (\<not> truthy (name_of (ms ! i)) \<longrightarrow> ms' ! i = ms ! i)"
    using assms(4) m by (simp add: with_code_named with_code_unnamed lookup_rxnorm_failed)
  ultimately show ?thesis
    using r len by blast
qed

text \<open>Two conditions of the same name against a service that times out on its first
  request only, and one medication against a service that finds no match: the second
  condition gets its code though the request of the first failed.\<close>

theorem enrichment_fail_soft_witness:
  "\<exists>cs' ms'.
      enrich_with_codes first_request_fails no_match
        (JObj [(''conditions'', JList [JObj [(''name'', JStr ''hypertension'')],
                                       JObj [(''name'', JStr ''hypertension'')]]),
               (''medications'', JList [JObj [(''name'', JStr ''lisinopril'')]])]) =
        Inr (JObj [(''conditions'', JList cs'), (''medications'', JList ms')])
      \<and> map (jget ''icd10_code'') cs' = [Some JNull, Some (JStr ''I10'')]
      \<and> map (jget ''rxnorm_code'') ms' = [Some JNull]"
proof -
  let ?cs = "[JObj [(''name'', JStr ''hypertension'')], JObj [(''name'', JStr ''hypertension'')]]"
  let ?ms = "[JObj [(''name'', JStr ''lisinopril'')]]"
  let ?d = "[(''conditions'', JList ?cs), (''medications'', JList ?ms)]"
  have "map_of ?d ''conditions'' = Some (JList ?cs)" and "map_of ?d ''medications'' = Some (JList ?ms)"
    and "\<forall>c \<in> set ?cs. is_dict c" and "\<forall>m \<in> set ?ms. is_dict m"
    by (simp_all add: is_dict_def)
  from enrichment_fail_soft [OF this, of first_request_fails no_match]
  obtain cs' ms' where r: "enrich_with_codes first_request_fails no_match (JObj ?d) =
        Inr (JObj (dict_set ''medications'' (JList ms') (dict_set ''conditions'' (JList cs') ?d)))"
    and len: "length cs' = length ?cs" "length ms' = length ?ms"
    and c: "\<forall>i < length ?cs.
            (truthy (name_of (?cs ! i))
               \<and> icd10_lookup_failed (first_request_fails (requests_before ?cs i) (name_of (?cs ! i)))
               \<longrightarrow> jget ''icd10_code'' (cs' ! i) = Some JNull)
            \<and> (truthy (name_of (?cs ! i))
               \<longrightarrow> jget ''icd10_code'' (cs' ! i) =
                     Some (lookup_icd10 (first_request_fails (requests_before ?cs i)) (name_of (?cs ! i))))"
    and m: "\<forall>i < length ?ms.
            (truthy (name_of (?ms ! i))
               \<and> rxnorm_lookup_failed (no_match (requests_before ?ms i) (name_of (?ms ! i)))
               \<longrightarrow> jget ''rxnorm_code'' (ms' ! i) = Some JNull)"
    by blast
  have n: "name_of (JObj [(''name'', JStr ''hypertension'')]) = JStr ''hypertension''"
    "name_of (JObj [(''name'', JStr ''lisinopril'')]) = JStr ''lisinopril''"
    by (simp_all add: name_of_def dict_get_def dict_get_default_def)
  have b: "requests_before ?cs 0 = 0" "requests_before ?cs (Suc 0) = Suc 0" "requests_before ?ms 0 = 0"
    by (simp_all add: requests_before_def n)
  have f0: "icd10_lookup_failed (first_request_fails 0 (JStr ''hypertension''))"
    by (simp add: icd10_lookup_failed_def first_request_fails_def)
  have f1: "lookup_icd10 (first_request_fails (Suc 0)) (JStr ''hypertension'') = JStr ''I10''"
    by (simp add: lookup_icd10_def first_request_fails_def raise_for_status_def py_index_def)
  have f2: "rxnorm_lookup_failed (no_match 0 (JStr ''lisinopril''))"
    by (simp add: rxnorm_lookup_failed_def no_match_def)
  from c [rule_format, of 0] have c0: "jget ''icd10_code'' (cs' ! 0) = Some JNull"
    by (simp add: n b f0)
  from c [rule_format, of "Suc 0"] have c1: "jget ''icd10_code'' (cs' ! Suc 0) = Some (JStr ''I10'')"
    by (simp add: n b f1)
  from c0 c1 len(1) have codes: "map (jget ''icd10_code'') cs' = [Some JNull, Some (JStr ''I10'')]"
    by (cases cs'; cases "tl cs'") auto
  from m [rule_format, of 0] have "jget ''rxnorm_code'' (ms' ! 0) = Some JNull"
    by (simp add: n b f2)
  with len(2) have rxcodes: "map (jget ''rxnorm_code'') ms' = [Some JNull]"
    by (cases ms') auto
  from r have res: "enrich_with_codes first_request_fails no_match (JObj ?d) =
      Inr (JObj [(''conditions'', JList cs'), (''medications'', JList ms')])"
    by (simp add: dict_set_def)
  show ?thesis
    by (intro exI conjI) (rule res, rule codes, rule rxcodes)
qed

text \<open>A body that is a JSON string where the list of results is expected, and an answer
  with the status 300: the lookups take neither for a failure, and a code that is not null
  is recorded from each.\<close>

theorem lookup_wrong_shape_counterexample:
  "enrich_with_codes string_body multiple_choices
     (JObj [(''conditions'', JList [JObj [(''name'', JStr ''hypertension'')]]),
            (''medications'', JList [JObj [(''name'', JStr ''lisinopril'')]])]) =
     Inr (JObj [(''conditions'', JList [JObj [(''name'', JStr ''hypertension''),
                                              (''icd10_code'', JStr ''d'')]]),
                (''medications'', JList [JObj [(''name'', JStr ''lisinopril''),
                                               (''rxnorm_code'', JStr ''29046'')]])])"
  by code_simp

subsection \<open>Loops and fields\<close>














subsection \<open>The classes\<close>









subsection \<open>The enriched dictionary\<close>










subsection \<open>Wrong types and defaults\<close>













end
